theory Spec2Isabelle
  imports Complex_Main "HOL-Library.Sublist"
begin

section \<open>Delicassy storefront backend\<close>

text \<open>
  A shallow embedding of the request handlers of \<^verbatim>\<open>main.py\<close> and of the record shapes
  of \<^verbatim>\<open>schemas.py\<close>. Every handler is a function from the store (the module-level
  \<^verbatim>\<open>db\<close>, which is \<^verbatim>\<open>None\<close> when no connection was made) to an outcome and the store
  afterwards. An exception is a value of type \<open>error\<close>; the store is returned in both cases,
  so that what an unsuccessful request leaves behind is part of the result.

  Python floats are modelled as exact rationals: sums, products and quotients are the exact
  ones, and \<^verbatim>\<open>round(x, 2)\<close> rounds the exact value to the nearest hundredth, a tie going
  to the even neighbour. The binary representation error of a float is not modelled.
\<close>

subsection \<open>Errors\<close>

text \<open>
  \<open>HTTPException\<close> is the only exception the handlers raise on purpose. The others escape
  the handler uncaught and reach the client as status 500: \<open>InvalidId\<close> is raised by the
  constructor of an object id, \<open>ValidationError\<close> by the construction of a schema record,
  \<open>DatabaseUnavailable\<close> by the store helpers when there is no connection.
\<close>

datatype error =
    HTTPException nat string
  | InvalidId
  | ValidationError
  | DatabaseUnavailable

fun status_code :: "error \<Rightarrow> nat" where
  "status_code (HTTPException c d) = c"
| "status_code InvalidId = 500"
| "status_code ValidationError = 500"
| "status_code DatabaseUnavailable = 500"

subsection \<open>Strings and object ids\<close>

definition ascii_lower :: "char \<Rightarrow> char" where
  "ascii_lower c =
     (case map_of (zip ''ABCDEFGHIJKLMNOPQRSTUVWXYZ'' ''abcdefghijklmnopqrstuvwxyz'') c of
        Some l \<Rightarrow> l
      | None \<Rightarrow> c)"

definition lower :: "string \<Rightarrow> string" where
  "lower s = map ascii_lower s"

definition hexdigits :: string where
  "hexdigits = ''0123456789abcdefABCDEF''"

text \<open>
  An object id is twelve bytes; \<open>Oid h\<close> holds them as the 24 lower-case hexadecimal digits
  that \<^verbatim>\<open>str\<close> prints. The constructor \<^verbatim>\<open>ObjectId(s)\<close> accepts a string of 24
  hexadecimal digits in either case and raises otherwise (\<open>None\<close> here).
\<close>

datatype object_id = Oid string

fun str :: "object_id \<Rightarrow> string" where
  "str (Oid h) = h"

definition ObjectId :: "string \<Rightarrow> object_id option" where
  "ObjectId s =
     (if length s = 24 \<and> list_all (\<lambda>c. c \<in> set hexdigits) s
      then Some (Oid (lower s)) else None)"

definition to_obj_id :: "string \<Rightarrow> error + object_id" where
  "to_obj_id id_str =
     (case ObjectId id_str of
        Some oid \<Rightarrow> Inr oid
      | None \<Rightarrow> Inl (HTTPException 400 ''Invalid id''))"

subsection \<open>Record shapes\<close>

text \<open>
  The stored documents carry the fields the handlers read or write; \<open>oid_p\<close>, \<open>oid_r\<close>,
  \<open>oid_c\<close> and \<open>oid_o\<close> are the \<^verbatim>\<open>_id\<close> of a product, review, cart and order. A field
  name that two shapes share is prefixed in all but one of them.
\<close>

record cart_item =
  product_id :: string
  quantity :: int

record product =
  oid_p :: object_id
  title :: string
  slug :: string
  description :: string
  price :: rat
  category :: string
  stock :: int
  fragility_rating :: int

record review =
  oid_r :: object_id
  r_product_id :: string
  user_name :: string
  rating :: int
  comment :: "string option"

record cart =
  oid_c :: object_id
  user_id :: "string option"
  session_id :: "string option"
  items :: "cart_item list"

record address =
  full_name :: string
  line1 :: string
  line2 :: "string option"
  city :: string
  state :: "string option"
  postal_code :: string
  country :: string
  phone :: "string option"

record payment_method =
  pm_method :: string
  token :: "string option"
  last4 :: "string option"

record shipping_option =
  so_insured :: bool
  so_premium_packaging :: bool

record order =
  oid_o :: object_id
  o_user_id :: "string option"
  o_cart_id :: "string option"
  o_items :: "cart_item list"
  amount_subtotal :: rat
  amount_shipping :: rat
  amount_insurance :: rat
  amount_total :: rat
  o_shipping_address :: address
  o_payment :: payment_method
  o_shipping :: shipping_option
  o_status :: string
  estimated_delivery :: "string option"

text \<open>
  The store: one list of documents per collection, in insertion order. The collections no
  modelled handler touches (category, packaging guide, about, notification) live in the
  extension of the record.
\<close>

record database =
  db_product :: "product list"
  db_review :: "review list"
  db_cart :: "cart list"
  db_order :: "order list"

subsection \<open>Request bodies\<close>

text \<open>
  \<^verbatim>\<open>shipping_address\<close> and \<^verbatim>\<open>payment\<close> arrive as untyped dictionaries. A value is a
  string, null, or anything else.
\<close>

datatype jval = JNull | JStr string | JOther

type_synonym pydict = "string \<Rightarrow> jval option"

record checkout_request =
  cart_id :: string
  shipping_address :: pydict
  payment :: pydict
  insured :: bool
  premium_packaging :: bool

record checkout_response =
  order_id :: string
  resp_amount_total :: rat
  resp_status :: string

record review_in =
  in_product_id :: string
  in_user_name :: string
  in_rating :: int
  in_comment :: "string option"

subsection \<open>Schema validation\<close>

definition required_str :: "pydict \<Rightarrow> string \<Rightarrow> string option" where
  "required_str d k = (case d k of Some (JStr s) \<Rightarrow> Some s | _ \<Rightarrow> None)"

definition optional_str :: "pydict \<Rightarrow> string \<Rightarrow> string option option" where
  "optional_str d k =
     (case d k of
        None \<Rightarrow> Some None
      | Some JNull \<Rightarrow> Some None
      | Some (JStr s) \<Rightarrow> Some (Some s)
      | Some JOther \<Rightarrow> None)"

definition Address :: "pydict \<Rightarrow> address option" where
  "Address d =
     (case (required_str d ''full_name'', required_str d ''line1'', optional_str d ''line2'',
            required_str d ''city'', optional_str d ''state'', required_str d ''postal_code'',
            required_str d ''country'', optional_str d ''phone'') of
        (Some fn, Some l1, Some l2, Some ci, Some st, Some pc, Some co, Some ph) \<Rightarrow>
          Some \<lparr>full_name = fn, line1 = l1, line2 = l2, city = ci, state = st,
                postal_code = pc, country = co, phone = ph\<rparr>
      | _ \<Rightarrow> None)"

definition payment_methods :: "string list" where
  "payment_methods = [''card'', ''paypal'', ''apple_pay'', ''google_pay'', ''bnpl'']"

definition PaymentMethod :: "pydict \<Rightarrow> payment_method option" where
  "PaymentMethod d =
     (case (required_str d ''method'', optional_str d ''token'', optional_str d ''last4'') of
        (Some m, Some t, Some l) \<Rightarrow>
          (if m \<in> set payment_methods then Some \<lparr>pm_method = m, token = t, last4 = l\<rparr> else None)
      | _ \<Rightarrow> None)"

definition CartItem :: "cart_item \<Rightarrow> cart_item option" where
  "CartItem i = (if 1 \<le> quantity i then Some i else None)"

fun CartItems :: "cart_item list \<Rightarrow> cart_item list option" where
  "CartItems [] = Some []"
| "CartItems (i # is) =
     (case CartItem i of
        None \<Rightarrow> None
      | Some c \<Rightarrow> (case CartItems is of None \<Rightarrow> None | Some cs \<Rightarrow> Some (c # cs)))"

text \<open>
  The construction of an \<^verbatim>\<open>Order\<close> in \<^verbatim>\<open>checkout\<close>: every line is validated as a
  \<^verbatim>\<open>CartItem\<close>, the four amounts must be at least 0, the address and the payment
  dictionaries must validate. The id is the one the store assigns on insertion.
\<close>

definition Order ::
  "object_id \<Rightarrow> cart_item list \<Rightarrow> rat \<Rightarrow> rat \<Rightarrow> rat \<Rightarrow> rat \<Rightarrow> pydict \<Rightarrow> pydict \<Rightarrow> bool \<Rightarrow> bool
     \<Rightarrow> order option" where
  "Order new_id its subtotal shipping insurance tot addr pay ins prem =
     (case (CartItems its, Address addr, PaymentMethod pay) of
        (Some cs, Some a, Some p) \<Rightarrow>
          (if 0 \<le> subtotal \<and> 0 \<le> shipping \<and> 0 \<le> insurance \<and> 0 \<le> tot
           then Some \<lparr>oid_o = new_id, o_user_id = None, o_cart_id = None, o_items = cs,
                      amount_subtotal = subtotal, amount_shipping = shipping,
                      amount_insurance = insurance, amount_total = tot,
                      o_shipping_address = a, o_payment = p,
                      o_shipping = \<lparr>so_insured = ins, so_premium_packaging = prem\<rparr>,
                      o_status = ''created'', estimated_delivery = None\<rparr>
           else None)
      | _ \<Rightarrow> None)"

subsection \<open>Store access\<close>

text \<open>
  The driver's \<^verbatim>\<open>find\<close> returns the documents that satisfy the filter, in stored order;
  \<^verbatim>\<open>update_one\<close> changes the first document that satisfies it and reports how many it
  matched (0 or 1); \<^verbatim>\<open>insert_one\<close> appends.
\<close>

definition find :: "('a \<Rightarrow> bool) \<Rightarrow> 'a list \<Rightarrow> 'a list" where
  "find flt coll = filter flt coll"

fun update_one :: "('a \<Rightarrow> bool) \<Rightarrow> ('a \<Rightarrow> 'a) \<Rightarrow> 'a list \<Rightarrow> 'a list \<times> nat" where
  "update_one flt upd [] = ([], 0)"
| "update_one flt upd (x # xs) =
     (if flt x then (upd x # xs, 1)
      else (case update_one flt upd xs of (ys, n) \<Rightarrow> (x # ys, n)))"

definition insert_one :: "'a \<Rightarrow> 'a list \<Rightarrow> 'a list" where
  "insert_one doc coll = coll @ [doc]"

text \<open>
  Modelled from the spec: the helpers \<^verbatim>\<open>get_documents\<close> and \<^verbatim>\<open>create_document\<close> of
  the module \<^verbatim>\<open>database\<close>, which is not among the sources. The spec gives
  \<^verbatim>\<open>query(collection, filter, limit?)\<close> as an ordered sequence of records and
  \<^verbatim>\<open>create(collection, record)\<close> as returning the id the store assigned, both failing
  with Database-Unavailable when the connection was never made. A collection is named by
  its field of the store; the id the store generates is an argument.
\<close>

definition get_documents ::
  "database option \<Rightarrow> (database \<Rightarrow> 'a list) \<Rightarrow> ('a \<Rightarrow> bool) \<Rightarrow> nat option \<Rightarrow> error + 'a list" where
  "get_documents db coll flt limit =
     (case db of
        None \<Rightarrow> Inl DatabaseUnavailable
      | Some d \<Rightarrow>
          Inr (case limit of None \<Rightarrow> find flt (coll d) | Some n \<Rightarrow> take n (find flt (coll d))))"

definition create_document ::
  "database option \<Rightarrow> (database \<Rightarrow> database) \<Rightarrow> object_id
     \<Rightarrow> (error + string) \<times> database option" where
  "create_document db ins new_id =
     (case db of
        None \<Rightarrow> (Inl DatabaseUnavailable, db)
      | Some d \<Rightarrow> (Inr (str new_id), Some (ins d)))"

subsection \<open>Checkout pricing\<close>

definition py_round2 :: "rat \<Rightarrow> rat" where
  "py_round2 x =
     (let y = x * 100; f = \<lfloor>y\<rfloor>; r = y - of_int f
      in of_int (if r < 1 / 2 then f
                 else if 1 / 2 < r then f + 1
                 else if even f then f else f + 1) / 100)"

text \<open>The two dictionary comprehensions: a later product overwrites an earlier one.\<close>

definition price_map_of :: "product list \<Rightarrow> (string \<Rightarrow> rat option)" where
  "price_map_of products = foldl (\<lambda>m p. m(str (oid_p p) \<mapsto> price p)) Map.empty products"

definition fragility_map_of :: "product list \<Rightarrow> (string \<Rightarrow> int option)" where
  "fragility_map_of products =
     foldl (\<lambda>m p. m(str (oid_p p) \<mapsto> fragility_rating p)) Map.empty products"

definition dict_get :: "('k \<Rightarrow> 'v option) \<Rightarrow> 'k \<Rightarrow> 'v \<Rightarrow> 'v" where
  "dict_get m k dflt = (case m k of Some v \<Rightarrow> v | None \<Rightarrow> dflt)"

record pricing =
  p_subtotal :: rat
  p_avg_fragility :: rat
  p_insurance :: rat
  p_premium_packaging_fee :: rat
  p_shipping :: rat
  p_total :: rat

text \<open>
  Lines 165 to 175 of \<^verbatim>\<open>checkout\<close>, from the result of the batched product lookup to
  the total. The item list is not empty where the handler reaches them.
\<close>

definition checkout_pricing :: "product list \<Rightarrow> cart_item list \<Rightarrow> bool \<Rightarrow> bool \<Rightarrow> pricing" where
  "checkout_pricing products its ins prem =
     (let price_map = price_map_of products;
          fragility_map = fragility_map_of products;
          subtotal = sum_list (map (\<lambda>it. dict_get price_map (product_id it) 0
                                            * of_int (quantity it)) its);
          avg_fragility = of_int (sum_list (map (\<lambda>it. dict_get fragility_map (product_id it) 3) its))
                            / of_nat (length its);
          insurance = (if ins then py_round2 (subtotal * (2 / 100 + 2 / 100 * (avg_fragility - 1)))
                       else 0);
          premium_packaging_fee = (if prem then 14 else 0);
          shipping = py_round2 (9 + (avg_fragility - 1) * (5 / 2))
      in \<lparr>p_subtotal = subtotal, p_avg_fragility = avg_fragility, p_insurance = insurance,
          p_premium_packaging_fee = premium_packaging_fee, p_shipping = shipping,
          p_total = py_round2 (subtotal + shipping + insurance + premium_packaging_fee)\<rparr>)"

fun ObjectIds :: "cart_item list \<Rightarrow> object_id list option" where
  "ObjectIds [] = Some []"
| "ObjectIds (i # is) =
     (case ObjectId (product_id i) of
        None \<Rightarrow> None
      | Some p \<Rightarrow> (case ObjectIds is of None \<Rightarrow> None | Some ps \<Rightarrow> Some (p # ps)))"

text \<open>
  The stock loop: one \<^verbatim>\<open>update_one\<close> with \<^verbatim>\<open>$inc\<close> per line. A line whose id does
  not parse would stop the loop with what the earlier lines have already written.
\<close>

definition inc_stock :: "int \<Rightarrow> product \<Rightarrow> product" where
  "inc_stock n p = p\<lparr>stock := stock p + n\<rparr>"

fun decrement_stock :: "cart_item list \<Rightarrow> database \<Rightarrow> error option \<times> database" where
  "decrement_stock [] d = (None, d)"
| "decrement_stock (it # its) d =
     (case ObjectId (product_id it) of
        None \<Rightarrow> (Some InvalidId, d)
      | Some pid \<Rightarrow>
          decrement_stock its
            (d\<lparr>db_product :=
                 fst (update_one (\<lambda>p. oid_p p = pid) (inc_stock (- quantity it)) (db_product d))\<rparr>))"

subsection \<open>The handlers\<close>

definition checkout ::
  "object_id \<Rightarrow> database option \<Rightarrow> checkout_request
     \<Rightarrow> (error + checkout_response) \<times> database option" where
  "checkout new_id db req =
     (case to_obj_id (cart_id req) of
        Inl e \<Rightarrow> (Inl e, db)
      | Inr cid \<Rightarrow>
     (case get_documents db db_cart (\<lambda>c. oid_c c = cid) (Some 1) of
        Inl e \<Rightarrow> (Inl e, db)
      | Inr [] \<Rightarrow> (Inl (HTTPException 404 ''Cart not found''), db)
      | Inr (cart # rest) \<Rightarrow>
     (if items cart = [] then (Inl (HTTPException 400 ''Cart is empty''), db)
      else
     (case ObjectIds (items cart) of
        None \<Rightarrow> (Inl InvalidId, db)
      | Some product_ids \<Rightarrow>
     (case db of
        None \<Rightarrow> (Inl DatabaseUnavailable, db)
      | Some d \<Rightarrow>
     (let products = find (\<lambda>p. oid_p p \<in> set product_ids) (db_product d);
          pr = checkout_pricing products (items cart) (insured req) (premium_packaging req)
      in
     (case Order new_id (items cart) (p_subtotal pr) (p_shipping pr) (p_insurance pr) (p_total pr)
             (shipping_address req) (payment req) (insured req) (premium_packaging req) of
        None \<Rightarrow> (Inl ValidationError, db)
      | Some order \<Rightarrow>
     (case create_document db (\<lambda>d. d\<lparr>db_order := insert_one order (db_order d)\<rparr>) new_id of
        (Inl e, db1) \<Rightarrow> (Inl e, db1)
      | (Inr oid, None) \<Rightarrow> (Inl DatabaseUnavailable, None)
      | (Inr oid, Some d1) \<Rightarrow>
     (case decrement_stock (items cart) d1 of
        (Some e, d2) \<Rightarrow> (Inl e, Some d2)
      | (None, d2) \<Rightarrow>
          (Inr \<lparr>order_id = oid, resp_amount_total = p_total pr, resp_status = ''created''\<rparr>,
           Some d2))))))))))"

text \<open>
  \<^verbatim>\<open>add_review\<close> builds the object id with the bare constructor, outside any
  \<^verbatim>\<open>try\<close>, before the store is asked.
\<close>

definition add_review ::
  "object_id \<Rightarrow> database option \<Rightarrow> review_in \<Rightarrow> (error + string) \<times> database option" where
  "add_review new_id db review =
     (case ObjectId (in_product_id review) of
        None \<Rightarrow> (Inl InvalidId, db)
      | Some pid \<Rightarrow>
     (case get_documents db db_product (\<lambda>p. oid_p p = pid) (Some 1) of
        Inl e \<Rightarrow> (Inl e, db)
      | Inr [] \<Rightarrow> (Inl (HTTPException 404 ''Product not found''), db)
      | Inr (p # ps) \<Rightarrow>
          create_document db
            (\<lambda>d. d\<lparr>db_review :=
                     insert_one \<lparr>oid_r = new_id, r_product_id = in_product_id review,
                                  user_name = in_user_name review, rating = in_rating review,
                                  comment = in_comment review\<rparr> (db_review d)\<rparr>)
            new_id))"

text \<open>
  \<^verbatim>\<open>update_cart\<close>: the body has been validated as a list of cart items by the time the
  handler runs. The result \<open>True\<close> stands for the response \<^verbatim>\<open>{"ok": True}\<close>.
\<close>

definition update_cart ::
  "database option \<Rightarrow> string \<Rightarrow> cart_item list \<Rightarrow> (error + bool) \<times> database option" where
  "update_cart db cart_id_str body_items =
     (case db of
        None \<Rightarrow> (Inl (HTTPException 500 ''Database not available''), db)
      | Some d \<Rightarrow>
     (case to_obj_id cart_id_str of
        Inl e \<Rightarrow> (Inl e, db)
      | Inr cid \<Rightarrow>
     (case update_one (\<lambda>c. oid_c c = cid) (\<lambda>c. c\<lparr>items := body_items\<rparr>) (db_cart d) of
        (carts, matched_count) \<Rightarrow>
          (if matched_count = 0
           then (Inl (HTTPException 404 ''Cart not found''), Some (d\<lparr>db_cart := carts\<rparr>))
           else (Inr True, Some (d\<lparr>db_cart := carts\<rparr>))))))"


subsection \<open>Product search\<close>













subsection \<open>The pricing rules as the specification words them\<close>

text \<open>
  The price and the fragility of a cart line are those of the product whose id, printed,
  is the line's \<^verbatim>\<open>product_id\<close>; 0 and 3 when there is no such product.
\<close>

definition product_of :: "database \<Rightarrow> string \<Rightarrow> product option" where
  "product_of d pid = List.find (\<lambda>p. str (oid_p p) = pid) (db_product d)"

definition spec_price :: "database \<Rightarrow> string \<Rightarrow> rat" where
  "spec_price d pid = (case product_of d pid of Some p \<Rightarrow> price p | None \<Rightarrow> 0)"

definition spec_fragility :: "database \<Rightarrow> string \<Rightarrow> int" where
  "spec_fragility d pid = (case product_of d pid of Some p \<Rightarrow> fragility_rating p | None \<Rightarrow> 3)"

definition spec_subtotal :: "database \<Rightarrow> cart_item list \<Rightarrow> rat" where
  "spec_subtotal d its = (\<Sum>it\<leftarrow>its. spec_price d (product_id it) * of_int (quantity it))"

definition spec_avg_fragility :: "database \<Rightarrow> cart_item list \<Rightarrow> rat" where
  "spec_avg_fragility d its =
     of_int (\<Sum>it\<leftarrow>its. spec_fragility d (product_id it)) / of_nat (length its)"

definition spec_shipping :: "database \<Rightarrow> cart_item list \<Rightarrow> rat" where
  "spec_shipping d its = py_round2 (9 + (spec_avg_fragility d its - 1) * (5 / 2))"

definition spec_insurance :: "database \<Rightarrow> cart_item list \<Rightarrow> bool \<Rightarrow> rat" where
  "spec_insurance d its ins =
     (if ins then py_round2 (spec_subtotal d its * (2 / 100 + 2 / 100 * (spec_avg_fragility d its - 1)))
      else 0)"

definition spec_total :: "database \<Rightarrow> cart_item list \<Rightarrow> bool \<Rightarrow> bool \<Rightarrow> rat" where
  "spec_total d its ins prem =
     py_round2 (spec_subtotal d its + spec_shipping d its + spec_insurance d its ins
                + (if prem then 14 else 0))"

text \<open>
  What the store and the schemas guarantee of the documents the handlers themselves store:
  ids are unique within a collection, the id of a product is the object id its printed form
  reads back as, a price is at least 0, a fragility rating lies between 1 and 5, the
  quantity of a cart line is at least 1. The stock is left free: checkout lowers it
  without a bound.
\<close>

definition wf_db :: "database \<Rightarrow> bool" where
  "wf_db d =
     (distinct (map oid_p (db_product d)) \<and> distinct (map oid_c (db_cart d))
      \<and> list_all (\<lambda>p. ObjectId (str (oid_p p)) = Some (oid_p p)) (db_product d)
      \<and> list_all (\<lambda>p. 0 \<le> price p \<and> 1 \<le> fragility_rating p \<and> fragility_rating p \<le> 5)
           (db_product d)
      \<and> list_all (\<lambda>c. list_all (\<lambda>it. 1 \<le> quantity it) (items c)) (db_cart d))"

definition ordered_quantity :: "cart_item list \<Rightarrow> object_id \<Rightarrow> int" where
  "ordered_quantity its pid =
     (\<Sum>it\<leftarrow>filter (\<lambda>it. ObjectId (product_id it) = Some pid) its. quantity it)"

text \<open>
  The order a checkout is to persist and the stocks it is to leave, in the words of the
  specification: the amounts are the specified ones, and every product has lost the
  quantities of the lines that name it.
\<close>

definition spec_order ::
  "object_id \<Rightarrow> database \<Rightarrow> cart_item list \<Rightarrow> checkout_request \<Rightarrow> address \<Rightarrow> payment_method
     \<Rightarrow> order" where
  "spec_order new_id d its req a pm =
     \<lparr>oid_o = new_id, o_user_id = None, o_cart_id = None, o_items = its,
      amount_subtotal = spec_subtotal d its, amount_shipping = spec_shipping d its,
      amount_insurance = spec_insurance d its (insured req),
      amount_total = spec_total d its (insured req) (premium_packaging req),
      o_shipping_address = a, o_payment = pm,
      o_shipping = \<lparr>so_insured = insured req, so_premium_packaging = premium_packaging req\<rparr>,
      o_status = ''created'', estimated_delivery = None\<rparr>"

definition spec_stocks :: "cart_item list \<Rightarrow> product list \<Rightarrow> product list" where
  "spec_stocks its ps = map (\<lambda>p. p\<lparr>stock := stock p - ordered_quantity its (oid_p p)\<rparr>) ps"

definition set_stocks :: "(product \<Rightarrow> int) \<Rightarrow> database \<Rightarrow> database" where
  "set_stocks f d = d\<lparr>db_product := map (\<lambda>p. p\<lparr>stock := f p\<rparr>) (db_product d)\<rparr>"

subsection \<open>A small store\<close>

definition vase :: product where
  "vase = \<lparr>oid_p = Oid ''64b000000000000000000001'', title = ''Vase'', slug = ''vase'',
           description = ''Hand-blown Glass'', price = 10, category = ''vases'', stock = 1,
           fragility_rating = 3\<rparr>"

definition bowl :: product where
  "bowl = \<lparr>oid_p = Oid ''64b000000000000000000002'', title = ''Oak bowl'', slug = ''oak-bowl'',
           description = ''Turned oak'', price = 4, category = ''bowls'', stock = 50,
           fragility_rating = 1\<rparr>"

definition vase_cart :: cart where
  "vase_cart = \<lparr>oid_c = Oid ''64c000000000000000000001'', user_id = None,
                session_id = Some ''s1'',
                items = [\<lparr>product_id = ''64b000000000000000000001'', quantity = 2\<rparr>]\<rparr>"

definition empty_cart :: cart where
  "empty_cart = \<lparr>oid_c = Oid ''64c000000000000000000002'', user_id = None,
                 session_id = Some ''s2'', items = []\<rparr>"

definition mixed_cart :: cart where
  "mixed_cart = \<lparr>oid_c = Oid ''64c000000000000000000003'', user_id = Some ''u3'',
                 session_id = None,
                 items = [\<lparr>product_id = ''64b000000000000000000002'', quantity = 100\<rparr>,
                          \<lparr>product_id = ''64b0000000000000000000ff'', quantity = 1\<rparr>]\<rparr>"

definition shop :: database where
  "shop = \<lparr>db_product = [vase, bowl], db_review = [],
           db_cart = [vase_cart, empty_cart, mixed_cart], db_order = []\<rparr>"

definition home :: pydict where
  "home = map_of [(''full_name'', JStr ''A. Buyer''), (''line1'', JStr ''1 Main St''),
                  (''city'', JStr ''Lyon''), (''postal_code'', JStr ''69001''),
                  (''country'', JStr ''FR'')]"

definition card :: pydict where
  "card = map_of [(''method'', JStr ''card''), (''last4'', JStr ''4242'')]"

definition request_for :: "string \<Rightarrow> checkout_request" where
  "request_for cid = \<lparr>cart_id = cid, shipping_address = home, payment = card,
                       insured = True, premium_packaging = False\<rparr>"

definition fresh_id :: object_id where
  "fresh_id = Oid ''64d000000000000000000001''"

definition review_of :: "string \<Rightarrow> review_in" where
  "review_of pid = \<lparr>in_product_id = pid, in_user_name = ''Ann'', in_rating = 5,
                     in_comment = None\<rparr>"

section \<open>Properties\<close>

subsection \<open>Lookups\<close>

lemma find_first_Cons:
  assumes "x \<in> set xs" and "P x"
  shows "\<exists>y ys. find P xs = y # ys \<and> y \<in> set xs \<and> P y"
proof (cases "filter P xs")
  case Nil
  with assms show ?thesis by (simp add: filter_empty_conv)
next
  case (Cons a list)
  have "a \<in> set (filter P xs)" unfolding Cons by simp
  then have "a \<in> set xs" and "P a" by simp_all
  with Cons show ?thesis by (simp add: find_def)
qed

lemma ObjectId_examples:
  "ObjectId ''abc'' = None"
  "ObjectId ''64c000000000000000000001'' = Some (Oid ''64c000000000000000000001'')"
  "ObjectId ''64c000000000000000000002'' = Some (Oid ''64c000000000000000000002'')"
  "ObjectId ''64c000000000000000000003'' = Some (Oid ''64c000000000000000000003'')"
  "ObjectId ''64c000000000000000000009'' = Some (Oid ''64c000000000000000000009'')"
  "ObjectId ''64b000000000000000000001'' = Some (Oid ''64b000000000000000000001'')"
  "ObjectId ''64b000000000000000000002'' = Some (Oid ''64b000000000000000000002'')"
  "ObjectId ''64b000000000000000000009'' = Some (Oid ''64b000000000000000000009'')"
  "ObjectId ''64b0000000000000000000ff'' = Some (Oid ''64b0000000000000000000ff'')"
  by (simp_all add: ObjectId_def hexdigits_def lower_def ascii_lower_def)



text \<open>
  C4. When the \<^verbatim>\<open>cart_id\<close> of a checkout names a stored cart and the item list of
  that cart is empty, the checkout fails with status 400 and the detail "Cart is empty", and
  the store afterwards is the store before: no order was added, no stock changed.
\<close>

theorem checkout_empty_cart:
  assumes "ObjectId (cart_id req) = Some cid"
    and "c \<in> set (db_cart d)" and "oid_c c = cid"
    and "\<forall>c \<in> set (db_cart d). oid_c c = cid \<longrightarrow> items c = []"
  shows "checkout new_id (Some d) req = (Inl (HTTPException 400 ''Cart is empty''), Some d)"
proof -
  obtain y ys where f: "find (\<lambda>c. oid_c c = cid) (db_cart d) = y # ys"
    and y: "y \<in> set (db_cart d)" "oid_c y = cid"
    using find_first_Cons [of c "db_cart d" "\<lambda>c. oid_c c = cid"] assms(2,3) by blast
  have "items y = []" using assms(4) y by blast
  then show ?thesis
    using assms(1) f by (simp add: checkout_def to_obj_id_def get_documents_def)
qed

theorem checkout_empty_cart_witness:
  "checkout fresh_id (Some shop) (request_for ''64c000000000000000000002'')
     = (Inl (HTTPException 400 ''Cart is empty''), Some shop)"
proof -
  have 1: "ObjectId (cart_id (request_for ''64c000000000000000000002''))
             = Some (Oid ''64c000000000000000000002'')"
    by (simp add: request_for_def ObjectId_examples)
  have 2: "empty_cart \<in> set (db_cart shop)" by (simp add: shop_def)
  have 3: "oid_c empty_cart = Oid ''64c000000000000000000002''" by (simp add: empty_cart_def)
  have 4: "\<forall>c \<in> set (db_cart shop). oid_c c = Oid ''64c000000000000000000002'' \<longrightarrow> items c = []"
    by (simp add: shop_def vase_cart_def empty_cart_def mixed_cart_def)
  from checkout_empty_cart [OF 1 2 3 4] show ?thesis .
qed

subsection \<open>Replacing the items of a cart\<close>


lemma update_one_index:
  "\<exists>x \<in> set xs. P x \<Longrightarrow>
     \<exists>i < length xs. P (xs ! i) \<and> update_one P f xs = (xs[i := f (xs ! i)], 1)"
proof (induction xs)
  case Nil
  then show ?case by simp
next
  case (Cons a xs)
  show ?case
  proof (cases "P a")
    case True
    then have "P ((a # xs) ! 0) \<and> update_one P f (a # xs) = ((a # xs)[0 := f ((a # xs) ! 0)], 1)"
      by simp
    then show ?thesis by blast
  next
    case False
    with Cons.prems have "\<exists>x \<in> set xs. P x" by auto
    then obtain i where i: "i < length xs" "P (xs ! i)"
      "update_one P f xs = (xs[i := f (xs ! i)], 1)"
      using Cons.IH by blast
    with False have "Suc i < length (a # xs) \<and> P ((a # xs) ! Suc i)
        \<and> update_one P f (a # xs) = ((a # xs)[Suc i := f ((a # xs) ! Suc i)], 1)"
      by simp
    then show ?thesis by blast
  qed
qed



text \<open>
  C9. An update of a stored cart changes one document of the cart collection, a cart with
  the requested id, and of that document only the field \<^verbatim>\<open>items\<close>: every other field
  of the cart, every other cart and every other collection of the store is as before.
\<close>

theorem update_cart_frame:
  assumes "ObjectId cart_id_str = Some cid" and "c \<in> set (db_cart d)" and "oid_c c = cid"
  shows "\<exists>i < length (db_cart d). oid_c (db_cart d ! i) = cid
           \<and> update_cart (Some d) cart_id_str body_items
               = (Inr True, Some (d\<lparr>db_cart := (db_cart d)[i := (db_cart d ! i)\<lparr>items := body_items\<rparr>]\<rparr>))"
proof -
  have "\<exists>x \<in> set (db_cart d). oid_c x = cid" using assms(2,3) by blast
  then obtain i where "i < length (db_cart d)" "oid_c (db_cart d ! i) = cid"
    "update_one (\<lambda>c. oid_c c = cid) (\<lambda>c. c\<lparr>items := body_items\<rparr>) (db_cart d)
       = ((db_cart d)[i := (db_cart d ! i)\<lparr>items := body_items\<rparr>], 1)"
    using update_one_index [of "db_cart d" "\<lambda>c. oid_c c = cid" "\<lambda>c. c\<lparr>items := body_items\<rparr>"]
    by blast
  then show ?thesis using assms(1) by (auto simp: update_cart_def to_obj_id_def)
qed




theorem update_cart_frame_witness:
  "\<exists>i < length (db_cart shop). oid_c (db_cart shop ! i) = Oid ''64c000000000000000000003''
     \<and> update_cart (Some shop) ''64c000000000000000000003'' []
         = (Inr True, Some (shop\<lparr>db_cart := (db_cart shop)[i := (db_cart shop ! i)\<lparr>items := []\<rparr>]\<rparr>))"
proof -
  have "mixed_cart \<in> set (db_cart shop)" by (simp add: shop_def)
  moreover have "oid_c mixed_cart = Oid ''64c000000000000000000003''"
    by (simp add: mixed_cart_def)
  ultimately show ?thesis
    using update_cart_frame [OF ObjectId_examples(4), of mixed_cart shop "[]"] by simp
qed

subsection \<open>Searching products\<close>







subsection \<open>Adding a review\<close>

text \<open>
  For a well-formed product id the handler does what its comment announces: without a
  product of that id it fails with status 404 and stores nothing, with one it appends the
  review and returns the printed new id. No failing call changes the store.
\<close>

lemma add_review_unknown_product:
  assumes "ObjectId (in_product_id review) = Some pid"
    and "\<forall>p \<in> set (db_product d). oid_p p \<noteq> pid"
  shows "add_review new_id (Some d) review
           = (Inl (HTTPException 404 ''Product not found''), Some d)"
proof -
  have "find (\<lambda>p. oid_p p = pid) (db_product d) = []"
    using assms(2) by (simp add: find_def filter_empty_conv)
  then show ?thesis
    using assms(1) by (simp add: add_review_def get_documents_def)
qed

lemma add_review_existing_product:
  assumes "ObjectId (in_product_id review) = Some pid"
    and "p \<in> set (db_product d)" and "oid_p p = pid"
  shows "add_review new_id (Some d) review
           = (Inr (str new_id),
              Some (d\<lparr>db_review := db_review d @
                        [\<lparr>oid_r = new_id, r_product_id = in_product_id review,
                          user_name = in_user_name review, rating = in_rating review,
                          comment = in_comment review\<rparr>]\<rparr>))"
proof -
  obtain y ys where "find (\<lambda>p. oid_p p = pid) (db_product d) = y # ys"
    using find_first_Cons [of p "db_product d" "\<lambda>p. oid_p p = pid"] assms(2,3) by blast
  then show ?thesis
    using assms(1)
    by (simp add: add_review_def get_documents_def create_document_def insert_one_def)
qed

lemma add_review_failure_keeps_store:
  "fst (add_review new_id db review) = Inl e \<Longrightarrow> snd (add_review new_id db review) = db"
  by (auto simp: add_review_def get_documents_def create_document_def
      split: option.splits sum.splits list.splits)

text \<open>
  C7. A review for a product id that names no product is to fail with Not-Found. For the
  id \<^verbatim>\<open>abc\<close>, which names none, the constructor of the object id raises before the
  product is looked up: the request ends with the uncaught \<open>InvalidId\<close>, status 500, and
  not with status 404. The store is unchanged.
\<close>

theorem add_review_malformed_id:
  "add_review fresh_id (Some shop) (review_of ''abc'') = (Inl InvalidId, Some shop)
   \<and> status_code InvalidId = 500"
  by (simp add: add_review_def review_of_def ObjectId_examples)

subsection \<open>The batched product lookup and the two dictionaries\<close>

lemma find_append:
  "List.find P (xs @ ys) = (case List.find P xs of None \<Rightarrow> List.find P ys | Some x \<Rightarrow> Some x)"
  by (induction xs) auto

lemma dict_comprehension:
  "distinct (map key ps) \<Longrightarrow>
     foldl (\<lambda>m p. m(key p \<mapsto> val p)) Map.empty ps k
       = map_option val (List.find (\<lambda>p. key p = k) ps)"
proof (induction ps rule: rev_induct)
  case Nil
  then show ?case by simp
next
  case (snoc x xs)
  then have d: "distinct (map key xs)" and x: "key x \<notin> key ` set xs" by auto
  show ?case
  proof (cases "key x = k")
    case True
    have "List.find (\<lambda>p. key p = k) xs = None"
      unfolding find_None_iff using x True by (metis imageI)
    with True show ?thesis by (simp add: find_append)
  next
    case False
    with snoc.IH [OF d] show ?thesis
      by (cases "List.find (\<lambda>p. key p = k) xs") (simp_all add: find_append)
  qed
qed

lemma find_filter_key:
  "\<forall>p \<in> set ps. key p = k \<longrightarrow> Q p \<Longrightarrow>
     List.find (\<lambda>p. key p = k) (filter Q ps) = List.find (\<lambda>p. key p = k) ps"
  by (induction ps) auto

lemma inj_str: "inj str"
proof (rule injI)
  fix a b assume "str a = str b" then show "a = b" by (cases a; cases b) simp
qed

lemma wf_db_print_distinct:
  assumes "wf_db d"
  shows "distinct (map (\<lambda>p. str (oid_p p)) (filter Q (db_product d)))"
proof -
  from assms have "distinct (map oid_p (db_product d))" by (simp add: wf_db_def)
  then have 1: "distinct (map oid_p (filter Q (db_product d)))" by (rule distinct_map_filter)
  have 2: "inj_on str (set (map oid_p (filter Q (db_product d))))"
    using inj_str by (rule inj_on_subset) simp
  have "distinct (map str (map oid_p (filter Q (db_product d))))"
    using 1 2 by (simp only: distinct_map simp_thms)
  then show ?thesis by (simp only: map_map comp_def)
qed

lemma ObjectIds_set:
  "ObjectIds its = Some pids \<Longrightarrow> it \<in> set its \<Longrightarrow>
     \<exists>pid. ObjectId (product_id it) = Some pid \<and> pid \<in> set pids"
  by (induction its arbitrary: pids) (auto split: option.splits)

lemma ObjectIds_total:
  "list_all (\<lambda>it. ObjectId (product_id it) \<noteq> None) its \<Longrightarrow> \<exists>pids. ObjectIds its = Some pids"
  by (induction its) auto

lemma ObjectIds_None:
  "ObjectIds its = None \<Longrightarrow> \<not> list_all (\<lambda>it. ObjectId (product_id it) \<noteq> None) its"
  by (induction its) (auto split: option.splits)

text \<open>The batched lookup finds, for every line, the product the line names if there is one.\<close>

lemma batched_lookup:
  assumes "wf_db d" and "ObjectIds its = Some pids" and "it \<in> set its"
  shows "List.find (\<lambda>p. str (oid_p p) = product_id it)
           (find (\<lambda>p. oid_p p \<in> set pids) (db_product d))
         = product_of d (product_id it)"
proof -
  obtain pid where pid: "ObjectId (product_id it) = Some pid" "pid \<in> set pids"
    using ObjectIds_set [OF assms(2,3)] by blast
  have "\<forall>p \<in> set (db_product d). str (oid_p p) = product_id it \<longrightarrow> oid_p p \<in> set pids"
  proof (intro ballI impI)
    fix p assume p: "p \<in> set (db_product d)" "str (oid_p p) = product_id it"
    from assms(1) p(1) have "ObjectId (str (oid_p p)) = Some (oid_p p)"
      by (simp add: wf_db_def list_all_iff)
    with p(2) pid show "oid_p p \<in> set pids" by simp
  qed
  then show ?thesis
    unfolding find_def product_of_def
    by (rule find_filter_key [where key = "\<lambda>p. str (oid_p p)"])
qed

lemma price_map_get:
  assumes "wf_db d" and "ObjectIds its = Some pids" and "it \<in> set its"
  shows "dict_get (price_map_of (find (\<lambda>p. oid_p p \<in> set pids) (db_product d))) (product_id it) 0
           = spec_price d (product_id it)"
proof -
  have "distinct (map (\<lambda>p. str (oid_p p)) (find (\<lambda>p. oid_p p \<in> set pids) (db_product d)))"
    unfolding find_def by (rule wf_db_print_distinct [OF assms(1)])
  then show ?thesis
    using batched_lookup [OF assms]
    by (simp add: dict_get_def price_map_of_def spec_price_def dict_comprehension
        split: option.splits)
qed

lemma fragility_map_get:
  assumes "wf_db d" and "ObjectIds its = Some pids" and "it \<in> set its"
  shows "dict_get (fragility_map_of (find (\<lambda>p. oid_p p \<in> set pids) (db_product d)))
           (product_id it) 3
           = spec_fragility d (product_id it)"
proof -
  have "distinct (map (\<lambda>p. str (oid_p p)) (find (\<lambda>p. oid_p p \<in> set pids) (db_product d)))"
    unfolding find_def by (rule wf_db_print_distinct [OF assms(1)])
  then show ?thesis
    using batched_lookup [OF assms]
    by (simp add: dict_get_def fragility_map_of_def spec_fragility_def dict_comprehension
        split: option.splits)
qed

subsection \<open>Pricing against the specification\<close>

lemma checkout_pricing_spec:
  assumes "wf_db d" and "ObjectIds its = Some pids"
  shows "checkout_pricing (find (\<lambda>p. oid_p p \<in> set pids) (db_product d)) its ins prem
           = \<lparr>p_subtotal = spec_subtotal d its, p_avg_fragility = spec_avg_fragility d its,
              p_insurance = spec_insurance d its ins,
              p_premium_packaging_fee = (if prem then 14 else 0),
              p_shipping = spec_shipping d its, p_total = spec_total d its ins prem\<rparr>"
proof -
  let ?found = "find (\<lambda>p. oid_p p \<in> set pids) (db_product d)"
  have s: "sum_list (map (\<lambda>it. dict_get (price_map_of ?found) (product_id it) 0
                               * of_int (quantity it)) its) = spec_subtotal d its"
    unfolding spec_subtotal_def
    by (rule arg_cong [where f = sum_list], rule map_cong [OF refl])
       (simp add: price_map_get [OF assms])
  have f: "sum_list (map (\<lambda>it. dict_get (fragility_map_of ?found) (product_id it) 3) its)
             = (\<Sum>it\<leftarrow>its. spec_fragility d (product_id it))"
    by (rule arg_cong [where f = sum_list], rule map_cong [OF refl])
       (simp add: fragility_map_get [OF assms])
  show ?thesis
    unfolding checkout_pricing_def Let_def s f
    by (simp add: spec_avg_fragility_def spec_insurance_def spec_shipping_def spec_total_def)
qed

lemma py_round2_nonneg: "0 \<le> x \<Longrightarrow> 0 \<le> py_round2 x"
proof -
  assume "0 \<le> x"
  then have "0 \<le> \<lfloor>x * 100\<rfloor>" by simp
  then show ?thesis by (simp add: py_round2_def Let_def)
qed

lemma CartItems_ok: "list_all (\<lambda>i. 1 \<le> quantity i) its \<Longrightarrow> CartItems its = Some its"
  by (induction its) (simp_all add: CartItem_def)

lemma product_of_member: "product_of d k = Some p \<Longrightarrow> p \<in> set (db_product d) \<and> str (oid_p p) = k"
  by (auto simp: product_of_def find_Some_iff)

lemma spec_price_nonneg: "wf_db d \<Longrightarrow> 0 \<le> spec_price d k"
  by (auto simp: spec_price_def wf_db_def list_all_iff split: option.splits
      dest!: product_of_member)

lemma spec_fragility_ge1: "wf_db d \<Longrightarrow> 1 \<le> spec_fragility d k"
  by (auto simp: spec_fragility_def wf_db_def list_all_iff split: option.splits
      dest!: product_of_member)

lemma spec_subtotal_nonneg:
  "wf_db d \<Longrightarrow> list_all (\<lambda>i. 1 \<le> quantity i) its \<Longrightarrow> 0 \<le> spec_subtotal d its"
  unfolding spec_subtotal_def
  by (rule sum_list_nonneg) (auto simp: list_all_iff intro!: mult_nonneg_nonneg spec_price_nonneg)

lemma sum_list_ge_length:
  "\<forall>x \<in> set xs. (1::int) \<le> f x \<Longrightarrow> int (length xs) \<le> sum_list (map f xs)"
  by (induction xs) auto

lemma spec_avg_fragility_ge1:
  assumes "wf_db d" and "its \<noteq> []"
  shows "1 \<le> spec_avg_fragility d its"
proof -
  have "int (length its) \<le> (\<Sum>it\<leftarrow>its. spec_fragility d (product_id it))"
    by (rule sum_list_ge_length) (simp add: spec_fragility_ge1 [OF assms(1)])
  then have "(of_nat (length its) :: rat) \<le> of_int (\<Sum>it\<leftarrow>its. spec_fragility d (product_id it))"
    by (metis of_int_le_iff of_int_of_nat_eq)
  moreover have "(0::rat) < of_nat (length its)" using assms(2) by simp
  ultimately show ?thesis by (simp add: spec_avg_fragility_def le_divide_eq)
qed

lemma spec_amounts_nonneg:
  assumes "wf_db d" and "its \<noteq> []" and "list_all (\<lambda>i. 1 \<le> quantity i) its"
  shows "0 \<le> spec_subtotal d its" and "0 \<le> spec_shipping d its"
    and "0 \<le> spec_insurance d its ins" and "0 \<le> spec_total d its ins prem"
proof -
  note a = spec_avg_fragility_ge1 [OF assms(1,2)]
  show s: "0 \<le> spec_subtotal d its" by (rule spec_subtotal_nonneg [OF assms(1,3)])
  show sh: "0 \<le> spec_shipping d its"
    unfolding spec_shipping_def using a by (intro py_round2_nonneg) simp
  show i: "0 \<le> spec_insurance d its ins"
    unfolding spec_insurance_def using a s
    by (auto intro!: py_round2_nonneg mult_nonneg_nonneg)
  show "0 \<le> spec_total d its ins prem"
    unfolding spec_total_def using s sh i [of ] by (intro py_round2_nonneg) simp
qed


subsection \<open>The stock loop\<close>

lemma update_one_distinct:
  "distinct (map k xs) \<Longrightarrow>
     fst (update_one (\<lambda>x. k x = v) f xs) = map (\<lambda>x. if k x = v then f x else x) xs"
proof (induction xs)
  case Nil
  then show ?case by simp
next
  case (Cons a xs)
  show ?case
  proof (cases "k a = v")
    case True
    from Cons.prems have "k a \<notin> k ` set xs" by simp
    with True have "\<forall>x \<in> set xs. k x \<noteq> v" by (metis imageI)
    then have "map (\<lambda>x. if k x = v then f x else x) xs = xs" by (simp add: map_idI)
    with True show ?thesis by simp
  next
    case False
    with Cons show ?thesis by (simp add: case_prod_beta)
  qed
qed

lemma ordered_quantity_Cons:
  "ordered_quantity (it # its) pid
     = (if ObjectId (product_id it) = Some pid then quantity it else 0) + ordered_quantity its pid"
  by (simp add: ordered_quantity_def)

lemma decrement_stock_ok:
  "ObjectIds its = Some pids \<Longrightarrow> distinct (map oid_p (db_product d)) \<Longrightarrow>
     decrement_stock its d = (None, d\<lparr>db_product := spec_stocks its (db_product d)\<rparr>)"
proof (induction its arbitrary: d pids)
  case Nil
  then show ?case by (simp add: spec_stocks_def ordered_quantity_def)
next
  case (Cons it its)
  from Cons.prems(1) obtain pid ps where pid: "ObjectId (product_id it) = Some pid"
    and ps: "ObjectIds its = Some ps"
    by (auto split: option.splits)
  let ?ps1 = "map (\<lambda>p. if oid_p p = pid then inc_stock (- quantity it) p else p) (db_product d)"
  have u: "fst (update_one (\<lambda>p. oid_p p = pid) (inc_stock (- quantity it)) (db_product d)) = ?ps1"
    by (rule update_one_distinct [OF Cons.prems(2)])
  have "\<And>p. oid_p (if oid_p p = pid then inc_stock (- quantity it) p else p) = oid_p p"
    by (simp add: inc_stock_def)
  then have ids: "map oid_p ?ps1 = map oid_p (db_product d)"
    by (simp add: comp_def)
  have "db_product (d\<lparr>db_product := ?ps1\<rparr>) = ?ps1" by simp
  then have d1: "distinct (map oid_p (db_product (d\<lparr>db_product := ?ps1\<rparr>)))"
    using Cons.prems(2) by (simp only: ids)
  have "spec_stocks its ?ps1 = spec_stocks (it # its) (db_product d)"
    by (simp add: spec_stocks_def ordered_quantity_Cons pid inc_stock_def)
  with Cons.IH [OF ps d1] pid u show ?case by simp
qed

lemma filter_distinct_key:
  "distinct (map k xs) \<Longrightarrow> x \<in> set xs \<Longrightarrow> filter (\<lambda>y. k y = k x) xs = [x]"
proof (induction xs)
  case Nil
  then show ?case by simp
next
  case (Cons a xs)
  show ?case
  proof (cases "a = x")
    case True
    from Cons.prems have "k a \<notin> k ` set xs" by simp
    with True have "\<forall>y \<in> set xs. k y \<noteq> k x" by (metis imageI)
    then have "filter (\<lambda>y. k y = k x) xs = []" by (simp add: filter_empty_conv)
    with True show ?thesis by simp
  next
    case False
    with Cons.prems have "x \<in> set xs" "k a \<noteq> k x" by auto
    with Cons show ?thesis by simp
  qed
qed

subsection \<open>Checkout on a well-formed store\<close>

lemma Order_spec:
  assumes "wf_db d" and "its \<noteq> []" and "list_all (\<lambda>i. 1 \<le> quantity i) its"
  shows "Order new_id its (spec_subtotal d its) (spec_shipping d its)
           (spec_insurance d its (insured req))
           (spec_total d its (insured req) (premium_packaging req))
           (shipping_address req) (payment req) (insured req) (premium_packaging req)
         = (case Address (shipping_address req) of
              None \<Rightarrow> None
            | Some a \<Rightarrow>
                (case PaymentMethod (payment req) of
                   None \<Rightarrow> None
                 | Some pm \<Rightarrow> Some (spec_order new_id d its req a pm)))"
  using spec_amounts_nonneg [OF assms] CartItems_ok [OF assms(3)]
  by (simp add: Order_def spec_order_def split: option.splits)

text \<open>
  What a checkout does on a well-formed store, once the cart is found and not empty: it
  fails when the id of a line does not parse or when the address or the payment of the
  request does not validate, and then changes nothing; otherwise it answers with the
  specified total, appends the specified order and lowers the stocks.
\<close>

lemma checkout_wf:
  assumes "wf_db d" and "ObjectId (cart_id req) = Some (oid_c c)"
    and "c \<in> set (db_cart d)" and "items c \<noteq> []"
  shows "checkout new_id (Some d) req =
     (case ObjectIds (items c) of
        None \<Rightarrow> (Inl InvalidId, Some d)
      | Some pids \<Rightarrow>
     (case Address (shipping_address req) of
        None \<Rightarrow> (Inl ValidationError, Some d)
      | Some a \<Rightarrow>
     (case PaymentMethod (payment req) of
        None \<Rightarrow> (Inl ValidationError, Some d)
      | Some pm \<Rightarrow>
          (Inr \<lparr>order_id = str new_id,
                resp_amount_total = spec_total d (items c) (insured req) (premium_packaging req),
                resp_status = ''created''\<rparr>,
           Some (d\<lparr>db_order := db_order d @ [spec_order new_id d (items c) req a pm],
                   db_product := spec_stocks (items c) (db_product d)\<rparr>)))))"
proof -
  have f: "find (\<lambda>x. oid_c x = oid_c c) (db_cart d) = [c]"
    unfolding find_def using assms(1,3) by (intro filter_distinct_key) (simp_all add: wf_db_def)
  have q: "list_all (\<lambda>i. 1 \<le> quantity i) (items c)"
    using assms(1,3) by (simp add: wf_db_def list_all_iff)
  show ?thesis
  proof (cases "ObjectIds (items c)")
    case None
    with f assms(2,4) show ?thesis
      by (simp add: checkout_def to_obj_id_def get_documents_def)
  next
    case (Some pids)
    note pr = checkout_pricing_spec [OF assms(1) Some]
    note ord = Order_spec [OF assms(1,4) q, of new_id req]
    have dist: "\<And>x. distinct (map oid_p (db_product (d\<lparr>db_order := x\<rparr>)))"
      using assms(1) by (simp add: wf_db_def)
    note dec = decrement_stock_ok [OF Some dist]
    show ?thesis
    proof (cases "Address (shipping_address req)")
      case None
      with f assms(2,4) Some pr ord show ?thesis
        by (simp add: checkout_def to_obj_id_def get_documents_def)
    next
      case a: (Some a)
      show ?thesis
      proof (cases "PaymentMethod (payment req)")
        case None
        with f assms(2,4) Some pr ord a show ?thesis
          by (simp add: checkout_def to_obj_id_def get_documents_def)
      next
        case pm: (Some pm)
        with f assms(2,4) Some pr ord a dec show ?thesis
          by (simp add: checkout_def to_obj_id_def get_documents_def create_document_def
              insert_one_def)
      qed
    qed
  qed
qed

subsection \<open>The amounts of a checkout\<close>

lemma shop_facts:
  "wf_db shop"
  "vase_cart \<in> set (db_cart shop)" "mixed_cart \<in> set (db_cart shop)"
  "oid_c vase_cart = Oid ''64c000000000000000000001''"
  "oid_c mixed_cart = Oid ''64c000000000000000000003''"
  "items vase_cart \<noteq> []" "items mixed_cart \<noteq> []"
  "ObjectIds (items vase_cart) = Some [Oid ''64b000000000000000000001'']"
  "ObjectIds (items mixed_cart)
     = Some [Oid ''64b000000000000000000002'', Oid ''64b0000000000000000000ff'']"
  by (simp_all add: wf_db_def shop_def vase_def bowl_def vase_cart_def empty_cart_def
        mixed_cart_def ObjectId_examples)

lemma request_facts:
  "cart_id (request_for cid) = cid" "insured (request_for cid) = True"
  "premium_packaging (request_for cid) = False"
  "Address (shipping_address (request_for cid)) \<noteq> None"
  "PaymentMethod (payment (request_for cid)) \<noteq> None"
  by (simp_all add: request_for_def Address_def PaymentMethod_def home_def card_def
        required_str_def optional_str_def payment_methods_def)

lemma spec_total_examples:
  "spec_total shop (items vase_cart) True False = 176 / 5"
  "spec_total shop (items mixed_cart) True False = 855 / 2"
  by code_simp+



subsection \<open>Fragility, missing products and stock\<close>

lemma avg_fragility_lines:
  "p_avg_fragility (checkout_pricing found its ins prem)
     = of_int (sum_list (map (\<lambda>k. dict_get (fragility_map_of found) k 3) (map product_id its)))
         / of_nat (length (map product_id its))"
  by (simp add: checkout_pricing_def Let_def comp_def)

text \<open>
  C2. The mean fragility the checkout computes is the sum, over the lines of the cart, of
  the fragility of the product each line names (3 where there is none), divided by the
  number of lines. The quantities play no part: two carts with the same product ids line
  by line have the same mean, so a line of quantity 100 counts once.
\<close>

theorem checkout_avg_fragility:
  assumes "wf_db d" and "ObjectIds its = Some pids"
  shows "p_avg_fragility
           (checkout_pricing (find (\<lambda>p. oid_p p \<in> set pids) (db_product d)) its ins prem)
         = of_int (\<Sum>it\<leftarrow>its. spec_fragility d (product_id it)) / of_nat (length its)
       \<and> (\<forall>its'. map product_id its' = map product_id its \<longrightarrow>
             p_avg_fragility
               (checkout_pricing (find (\<lambda>p. oid_p p \<in> set pids) (db_product d)) its' ins prem)
             = p_avg_fragility
                 (checkout_pricing (find (\<lambda>p. oid_p p \<in> set pids) (db_product d)) its ins prem))"
proof
  show "p_avg_fragility
           (checkout_pricing (find (\<lambda>p. oid_p p \<in> set pids) (db_product d)) its ins prem)
         = of_int (\<Sum>it\<leftarrow>its. spec_fragility d (product_id it)) / of_nat (length its)"
    by (simp add: checkout_pricing_spec [OF assms] spec_avg_fragility_def)
next
  show "\<forall>its'. map product_id its' = map product_id its \<longrightarrow>
             p_avg_fragility
               (checkout_pricing (find (\<lambda>p. oid_p p \<in> set pids) (db_product d)) its' ins prem)
             = p_avg_fragility
                 (checkout_pricing (find (\<lambda>p. oid_p p \<in> set pids) (db_product d)) its ins prem)"
    by (simp only: avg_fragility_lines) simp
qed

theorem checkout_avg_fragility_witness:
  "p_avg_fragility
     (checkout_pricing
        (find (\<lambda>p. oid_p p \<in> set [Oid ''64b000000000000000000002'', Oid ''64b0000000000000000000ff''])
           (db_product shop))
        [\<lparr>product_id = ''64b000000000000000000002'', quantity = 100\<rparr>,
         \<lparr>product_id = ''64b0000000000000000000ff'', quantity = 1\<rparr>] True False)
   = (1 + 3) / 2"
proof -
  have i: "items mixed_cart = [\<lparr>product_id = ''64b000000000000000000002'', quantity = 100\<rparr>,
                               \<lparr>product_id = ''64b0000000000000000000ff'', quantity = 1\<rparr>]"
    by (simp add: mixed_cart_def)
  have f: "spec_fragility shop ''64b000000000000000000002'' = 1"
    "spec_fragility shop ''64b0000000000000000000ff'' = 3"
    by code_simp+
  show ?thesis
    using checkout_avg_fragility [OF shop_facts(1) shop_facts(9), of True False] f
    by (simp add: i)
qed





lemma find_map:
  "List.find P (map g xs) = map_option g (List.find (\<lambda>x. P (g x)) xs)"
  by (induction xs) auto

lemma distinct_key_eq:
  "distinct (map k xs) \<Longrightarrow> x \<in> set xs \<Longrightarrow> y \<in> set xs \<Longrightarrow> k x = k y \<Longrightarrow> x = y"
  by (metis distinct_map inj_on_eq_iff)

lemma set_stocks_wf: "wf_db d \<Longrightarrow> wf_db (set_stocks f d)"
  by (simp add: wf_db_def set_stocks_def comp_def list_all_iff)

lemma set_stocks_spec:
  "spec_price (set_stocks f d) k = spec_price d k"
  "spec_fragility (set_stocks f d) k = spec_fragility d k"
  by (simp_all add: spec_price_def spec_fragility_def product_of_def set_stocks_def find_map
        split: option.splits)

lemma set_stocks_total:
  "spec_total (set_stocks f d) its ins prem = spec_total d its ins prem"
  by (simp add: spec_total_def spec_subtotal_def spec_shipping_def spec_insurance_def
      spec_avg_fragility_def set_stocks_spec)

lemma empty_cart_wf:
  assumes "wf_db d" and "ObjectId (cart_id req) = Some (oid_c c)"
    and "c \<in> set (db_cart d)" and "items c = []"
  shows "checkout new_id (Some d) req = (Inl (HTTPException 400 ''Cart is empty''), Some d)"
proof -
  have "find (\<lambda>x. oid_c x = oid_c c) (db_cart d) = [c]"
    unfolding find_def using assms(1,3) by (intro filter_distinct_key) (simp_all add: wf_db_def)
  with assms(2,4) show ?thesis
    by (simp add: checkout_def to_obj_id_def get_documents_def)
qed

text \<open>
  C5. After a successful checkout the product collection is the one before with every
  stock lowered by the quantities of the lines that name the product, one decrement per
  line, and nothing else changed. No stock is ever compared: whatever the stocks are set
  to, the outcome of the checkout is the same, so it succeeds also when a quantity
  exceeds the stock, which then becomes negative.
\<close>

theorem checkout_decrements_stock:
  assumes "wf_db d" and "ObjectId (cart_id req) = Some (oid_c c)" and "c \<in> set (db_cart d)"
  shows "(\<forall>resp db'. checkout new_id (Some d) req = (Inr resp, db') \<longrightarrow>
            (\<exists>d'. db' = Some d'
               \<and> db_product d'
                   = map (\<lambda>p. p\<lparr>stock := stock p - ordered_quantity (items c) (oid_p p)\<rparr>)
                       (db_product d)))
       \<and> (\<forall>f. fst (checkout new_id (Some (set_stocks f d)) req)
                = fst (checkout new_id (Some d) req))"
proof (cases "items c = []")
  case True
  have c': "c \<in> set (db_cart (set_stocks f d))" for f
    using assms(3) by (simp add: set_stocks_def)
  show ?thesis
    by (simp add: empty_cart_wf [OF assms True]
        empty_cart_wf [OF set_stocks_wf [OF assms(1)] assms(2) c' True])
next
  case False
  have c': "c \<in> set (db_cart (set_stocks f d))" for f
    using assms(3) by (simp add: set_stocks_def)
  show ?thesis
    by (auto simp: checkout_wf [OF assms False]
        checkout_wf [OF set_stocks_wf [OF assms(1)] assms(2) c' False]
        set_stocks_total spec_stocks_def split: option.splits)
qed

theorem checkout_decrements_stock_witness:
  "fst (checkout fresh_id (Some shop) (request_for ''64c000000000000000000001''))
     = Inr \<lparr>order_id = ''64d000000000000000000001'', resp_amount_total = 176 / 5,
             resp_status = ''created''\<rparr>
   \<and> stock vase = 1
   \<and> ordered_quantity (items vase_cart) (oid_p vase) = 2
   \<and> map_option (map stock \<circ> db_product)
        (snd (checkout fresh_id (Some shop) (request_for ''64c000000000000000000001'')))
       = Some [- 1, 50]"
proof -
  let ?req = "request_for ''64c000000000000000000001''"
  have 2: "ObjectId (cart_id ?req) = Some (oid_c vase_cart)"
    by (simp add: request_facts shop_facts ObjectId_examples)
  have r: "fst (checkout fresh_id (Some shop) ?req)
     = Inr \<lparr>order_id = ''64d000000000000000000001'', resp_amount_total = 176 / 5,
             resp_status = ''created''\<rparr>"
    using checkout_wf [OF shop_facts(1) 2 shop_facts(2) shop_facts(6), of fresh_id]
      request_facts [of "''64c000000000000000000001''"] shop_facts(8) spec_total_examples(1)
    by (auto simp: fresh_id_def split: option.splits)
  have q: "ordered_quantity (items vase_cart) (oid_p vase) = 2"
    "ordered_quantity (items vase_cart) (oid_p bowl) = 0"
    by (simp_all add: ordered_quantity_def vase_cart_def vase_def bowl_def ObjectId_examples)
  have s: "stock vase = 1" "stock bowl = 50" by (simp_all add: vase_def bowl_def)
  obtain resp db' where c: "checkout fresh_id (Some shop) ?req = (Inr resp, db')"
    using r by (cases "checkout fresh_id (Some shop) ?req") auto
  from checkout_decrements_stock [OF shop_facts(1) 2 shop_facts(2), of fresh_id] c
  obtain d' where "db' = Some d'"
    "db_product d' = map (\<lambda>p. p\<lparr>stock := stock p - ordered_quantity (items vase_cart) (oid_p p)\<rparr>)
                       (db_product shop)"
    by blast
  with c r q s show ?thesis by (simp add: shop_def)
qed


end
